theory Spec2Isabelle
  imports Main
begin

section \<open>The base Actor class of \<^verbatim>\<open>ba/_actor.py\<close>\<close>

text \<open>
  The module defines one class, \<^verbatim>\<open>Actor\<close>. Its methods read and change objects that
  live outside of it (the Activity it was created in, an engine node), so the embedding
  threads an explicit \<open>world\<close> through every method: a method is a function from the
  world to an outcome (an exception or a value) paired with the world it leaves behind.
  A raise keeps the effects that happened before it, as in Python.
\<close>

subsection \<open>Python values, messages and exceptions\<close>

type_synonym node_id = nat
type_synonym activity_id = nat
type_synonym actor_id = nat

text \<open>
  The exceptions that can travel through the methods. \<^verbatim>\<open>ActivityNotFoundError\<close> and
  every \<open>OtherException\<close> derive from Python's \<^verbatim>\<open>Exception\<close>; \<^verbatim>\<open>KeyboardInterrupt\<close> and
  \<^verbatim>\<open>SystemExit\<close> derive from \<^verbatim>\<open>BaseException\<close> only, so an \<^verbatim>\<open>except Exception:\<close>
  clause does not match them.
\<close>

datatype pyexn =
    ActivityNotFoundError
  | OtherException string
  | KeyboardInterrupt
  | SystemExit

fun isinstance_Exception :: "pyexn \<Rightarrow> bool" where
  "isinstance_Exception ActivityNotFoundError = True"
| "isinstance_Exception (OtherException _) = True"
| "isinstance_Exception KeyboardInterrupt = False"
| "isinstance_Exception SystemExit = False"

text \<open>A message is any object; only whether it is a \<^verbatim>\<open>DieMessage\<close> is ever tested.\<close>

datatype message = DieMessage | OtherMessage string

fun isinstance_DieMessage :: "message \<Rightarrow> bool" where
  "isinstance_DieMessage DieMessage = True"
| "isinstance_DieMessage (OtherMessage _) = False"

text \<open>What \<^verbatim>\<open>handlemessage\<close> returns: \<^verbatim>\<open>None\<close> or the \<^verbatim>\<open>_error.UNHANDLED\<close> sentinel.\<close>

datatype pyvalue = PyNone | UNHANDLED

subsection \<open>The world outside the Actor\<close>

text \<open>
  Calls into the engine and into the error-printing subsystem are recorded, in order,
  in the world's \<open>calls\<close> trace.
\<close>

datatype event =
    CallNodeDelete node_id
  | CallAddActorWeakRef activity_id actor_id
  | CallRetainActor activity_id actor_id
  | CallPrintException pyexn string actor_id
  | CallPrintError string actor_id

text \<open>
  Modelled from the spec: \<^verbatim>\<open>ba.Activity\<close> is an external class (not in the source). Per
  the spec it "owns a registry of weak actor references and an explicit retain list for
  actors kept alive outside normal reference counting", and it answers \<^verbatim>\<open>is_expired()\<close>.
\<close>

record activity =
  expired :: bool
  actor_weak_refs :: "actor_id list"
  actor_refs :: "actor_id list"

text \<open>
  \<open>activities\<close> holds the Activity objects that are alive: an Activity that the collector
  has destroyed is absent. \<open>current_activity\<close> is the engine's current Activity context,
  \<open>nodes\<close> the engine nodes that exist.
\<close>

record world =
  activities :: "activity_id \<rightharpoonup> activity"
  current_activity :: "activity_id option"
  nodes :: "node_id set"
  calls :: "event list"

type_synonym 'a py = "world \<Rightarrow> (pyexn + 'a) \<times> world"

text \<open>
  A \<^verbatim>\<open>weakref.ref\<close> to an Activity is a handle on the object. Calling the weakref
  yields the Activity while it is alive and \<^verbatim>\<open>None\<close> afterwards. When an Activity
  stops being alive is decided by the host runtime and is not part of this model: the
  properties below hold for every world, with the Activity present or absent.
\<close>

datatype activity_weakref = Weakref activity_id

definition weakref_ref :: "activity_id \<Rightarrow> activity_weakref" where
  "weakref_ref aid = Weakref aid"

fun weakref_call :: "activity_weakref \<Rightarrow> world \<Rightarrow> activity_id option" where
  "weakref_call (Weakref aid) w =
     (case activities w aid of None \<Rightarrow> None | Some _ \<Rightarrow> Some aid)"

text \<open>
  Modelled from the spec: \<^verbatim>\<open>_ba.getactivity()\<close> is the engine's accessor for the current
  Activity (not in the source). An Actor is "created inside an active Activity context";
  outside of one there is no Activity to return and the call raises.
\<close>

definition ba_getactivity :: "world \<Rightarrow> pyexn + activity_id" where
  "ba_getactivity w =
     (case current_activity w of
        None \<Rightarrow> Inl ActivityNotFoundError
      | Some aid \<Rightarrow>
          (case activities w aid of
             None \<Rightarrow> Inl ActivityNotFoundError
           | Some _ \<Rightarrow> Inr aid))"

text \<open>
  Modelled from the spec: the three methods of the external Activity that the Actor
  calls. Their callers hold the Activity, so the \<open>None\<close> branches are never reached
  from the Actor's methods.
\<close>

definition Activity_is_expired :: "activity_id \<Rightarrow> world \<Rightarrow> bool" where
  "Activity_is_expired aid w =
     (case activities w aid of None \<Rightarrow> True | Some act \<Rightarrow> expired act)"

definition Activity_add_actor_weak_ref :: "activity_id \<Rightarrow> actor_id \<Rightarrow> world \<Rightarrow> world" where
  "Activity_add_actor_weak_ref aid actor w =
     (case activities w aid of
        None \<Rightarrow> w
      | Some act \<Rightarrow>
          w\<lparr>activities := (activities w)
               (aid \<mapsto> act\<lparr>actor_weak_refs := actor_weak_refs act @ [actor]\<rparr>),
            calls := calls w @ [CallAddActorWeakRef aid actor]\<rparr>)"

definition Activity_retain_actor :: "activity_id \<Rightarrow> actor_id \<Rightarrow> world \<Rightarrow> world" where
  "Activity_retain_actor aid actor w =
     (case activities w aid of
        None \<Rightarrow> w
      | Some act \<Rightarrow>
          w\<lparr>activities := (activities w)
               (aid \<mapsto> act\<lparr>actor_refs := actor_refs act @ [actor]\<rparr>),
            calls := calls w @ [CallRetainActor aid actor]\<rparr>)"

text \<open>
  Modelled from the spec: \<^verbatim>\<open>ba.Node\<close> belongs to the engine's scene graph (not in the
  source). A node exists until it is deleted.
\<close>

definition Node_delete :: "node_id \<Rightarrow> world \<Rightarrow> world" where
  "Node_delete n w = w\<lparr>nodes := nodes w - {n}, calls := calls w @ [CallNodeDelete n]\<rparr>"

definition Node_exists :: "node_id \<Rightarrow> world \<Rightarrow> bool" where
  "Node_exists n w = (n \<in> nodes w)"

text \<open>
  Modelled from the spec: the error-reporting subsystem (not in the source).
  \<^verbatim>\<open>print_exception\<close> runs inside an \<^verbatim>\<open>except\<close> clause and reports the exception being
  handled together with its arguments.
\<close>

definition print_exception :: "pyexn \<Rightarrow> string \<Rightarrow> actor_id \<Rightarrow> world \<Rightarrow> world" where
  "print_exception e txt actor w = w\<lparr>calls := calls w @ [CallPrintException e txt actor]\<rparr>"

definition print_error :: "string \<Rightarrow> actor_id \<Rightarrow> world \<Rightarrow> world" where
  "print_error txt actor w = w\<lparr>calls := calls w @ [CallPrintError txt actor]\<rparr>"

subsection \<open>The Actor object and its class\<close>

text \<open>
  An Actor object: its identity, its \<^verbatim>\<open>node\<close> attribute and its \<^verbatim>\<open>_activity\<close> attribute.
  The methods read \<^verbatim>\<open>node\<close> through \<^verbatim>\<open>getattr(self, 'node', None)\<close>, which also covers an
  object without that attribute: \<open>node_attr\<close> is \<open>None\<close> when the attribute is absent,
  \<open>Some None\<close> when it holds \<^verbatim>\<open>None\<close> and \<open>Some (Some n)\<close> when it holds node \<open>n\<close>.
\<close>

record actor =
  obj_id :: actor_id
  node_attr :: "node_id option option"
  activity_attr :: activity_weakref

definition getattr_node :: "actor \<Rightarrow> node_id option" where
  "getattr_node self = (case node_attr self of None \<Rightarrow> None | Some v \<Rightarrow> v)"

text \<open>
  Calls written \<^verbatim>\<open>self.m(...)\<close> are dispatched on the object's class. A class is given by
  the methods it overrides; a method it does not override is the one \<^verbatim>\<open>Actor\<close> defines.
\<close>

record actor_class =
  handlemessage_ov :: "(actor \<Rightarrow> message \<Rightarrow> pyvalue py) option"
  getactivity_ov :: "(actor \<Rightarrow> bool \<Rightarrow> activity_id option py) option"
  is_expired_ov :: "(actor \<Rightarrow> bool py) option"
  exists_ov :: "(actor \<Rightarrow> bool py) option"

definition Actor_class :: actor_class where
  "Actor_class =
     \<lparr>handlemessage_ov = None, getactivity_ov = None, is_expired_ov = None, exists_ov = None\<rparr>"

subsection \<open>The methods of Actor\<close>

definition Actor_init :: "actor_id \<Rightarrow> node_id option \<Rightarrow> actor py" where
  "Actor_init self_id node w =
     (case ba_getactivity w of
        Inl e \<Rightarrow> (Inl e, w)
      | Inr activity \<Rightarrow>
          (let self = \<lparr>obj_id = self_id, node_attr = Some None,
                       activity_attr = weakref_ref activity\<rparr>;
               w1 = Activity_add_actor_weak_ref activity self_id w
           in (Inr (if node \<noteq> None then self\<lparr>node_attr := Some node\<rparr> else self), w1)))"

definition Actor_handlemessage :: "actor \<Rightarrow> message \<Rightarrow> pyvalue py" where
  "Actor_handlemessage self msg w =
     (if isinstance_DieMessage msg then
        (case getattr_node self of
           Some node \<Rightarrow> (Inr PyNone, Node_delete node w)
         | None \<Rightarrow> (Inr PyNone, w))
      else (Inr UNHANDLED, w))"

definition call_handlemessage :: "actor_class \<Rightarrow> actor \<Rightarrow> message \<Rightarrow> pyvalue py" where
  "call_handlemessage cls =
     (case handlemessage_ov cls of None \<Rightarrow> Actor_handlemessage | Some f \<Rightarrow> f)"

definition Actor_activity :: "actor \<Rightarrow> activity_id py" where
  "Actor_activity self w =
     (case weakref_call (activity_attr self) w of
        None \<Rightarrow> (Inl ActivityNotFoundError, w)
      | Some activity \<Rightarrow> (Inr activity, w))"

definition Actor_getactivity :: "actor \<Rightarrow> bool \<Rightarrow> activity_id option py" where
  "Actor_getactivity self doraise w =
     (let activity = weakref_call (activity_attr self) w
      in if activity = None \<and> doraise then (Inl ActivityNotFoundError, w)
         else (Inr activity, w))"

definition call_getactivity :: "actor_class \<Rightarrow> actor \<Rightarrow> bool \<Rightarrow> activity_id option py" where
  "call_getactivity cls =
     (case getactivity_ov cls of None \<Rightarrow> Actor_getactivity | Some f \<Rightarrow> f)"

definition Actor_is_expired :: "actor_class \<Rightarrow> actor \<Rightarrow> bool py" where
  "Actor_is_expired cls self w =
     (case call_getactivity cls self False w of
        (Inl e, w1) \<Rightarrow> (Inl e, w1)
      | (Inr None, w1) \<Rightarrow> (Inr True, w1)
      | (Inr (Some activity), w1) \<Rightarrow> (Inr (Activity_is_expired activity w1), w1))"

definition call_is_expired :: "actor_class \<Rightarrow> actor \<Rightarrow> bool py" where
  "call_is_expired cls =
     (case is_expired_ov cls of None \<Rightarrow> Actor_is_expired cls | Some f \<Rightarrow> f)"

definition Actor_del :: "actor_class \<Rightarrow> actor \<Rightarrow> unit py" where
  "Actor_del cls self w =
     (let (r, w2) =
            (case call_is_expired cls self w of
               (Inl e, w1) \<Rightarrow> (Inl e, w1)
             | (Inr is_exp, w1) \<Rightarrow>
                 if \<not> is_exp then
                   (case call_handlemessage cls self DieMessage w1 of
                      (Inl e, w2) \<Rightarrow> (Inl e, w2)
                    | (Inr _, w2) \<Rightarrow> (Inr (), w2))
                 else (Inr (), w1))
      in case r of
           Inl e \<Rightarrow>
             if isinstance_Exception e
             then (Inr (), print_exception e ''exception in ba.Actor.__del__() for''
                             (obj_id self) w2)
             else (Inl e, w2)
         | Inr u \<Rightarrow> (Inr u, w2))"

definition Actor_handlemessage_sanity_check :: "actor_class \<Rightarrow> actor \<Rightarrow> unit py" where
  "Actor_handlemessage_sanity_check cls self w =
     (case call_is_expired cls self w of
        (Inl e, w1) \<Rightarrow> (Inl e, w1)
      | (Inr is_exp, w1) \<Rightarrow>
          if is_exp
          then (Inr (), print_error ''handlemessage called on expired actor: '' (obj_id self) w1)
          else (Inr (), w1))"

definition Actor_autoretain :: "actor \<Rightarrow> actor py" where
  "Actor_autoretain self w =
     (case weakref_call (activity_attr self) w of
        None \<Rightarrow> (Inl ActivityNotFoundError, w)
      | Some activity \<Rightarrow> (Inr self, Activity_retain_actor activity (obj_id self) w))"

definition Actor_on_expire :: "actor \<Rightarrow> unit py" where
  "Actor_on_expire self w = (Inr (), w)"

definition Actor_exists :: "actor \<Rightarrow> bool py" where
  "Actor_exists self w =
     (case getattr_node self of
        Some node \<Rightarrow> (Inr (Node_exists node w), w)
      | None \<Rightarrow> (Inr True, w))"

definition call_exists :: "actor_class \<Rightarrow> actor \<Rightarrow> bool py" where
  "call_exists cls = (case exists_ov cls of None \<Rightarrow> Actor_exists | Some f \<Rightarrow> f)"

definition Actor_bool :: "actor_class \<Rightarrow> actor \<Rightarrow> bool py" where
  "Actor_bool cls self w = call_exists cls self w"

definition Actor_is_alive :: "actor \<Rightarrow> bool py" where
  "Actor_is_alive self w = (Inr True, w)"

subsection \<open>Example objects\<close>

text \<open>
  Activity 1 is alive and is the current context; activity 3 is alive but has expired;
  activity 2 has been destroyed. Node 7 exists.
\<close>

definition ex_world :: world where
  "ex_world =
     \<lparr>activities = [1 \<mapsto> \<lparr>expired = False, actor_weak_refs = [], actor_refs = []\<rparr>,
                    3 \<mapsto> \<lparr>expired = True, actor_weak_refs = [], actor_refs = []\<rparr>],
      current_activity = Some 1, nodes = {7}, calls = []\<rparr>"

definition ex_actor :: actor where
  "ex_actor = \<lparr>obj_id = 3, node_attr = Some (Some 7), activity_attr = Weakref 1\<rparr>"

definition ex_orphan :: actor where
  "ex_orphan = \<lparr>obj_id = 4, node_attr = Some (Some 7), activity_attr = Weakref 2\<rparr>"

definition ex_bare :: actor where
  "ex_bare = \<lparr>obj_id = 5, node_attr = Some None, activity_attr = Weakref 1\<rparr>"

definition ex_expired :: actor where
  "ex_expired = \<lparr>obj_id = 6, node_attr = Some (Some 7), activity_attr = Weakref 3\<rparr>"

text \<open>A subclass whose \<^verbatim>\<open>handlemessage\<close> raises the given exception at once.\<close>

definition raising_handlemessage :: "pyexn \<Rightarrow> actor \<Rightarrow> message \<Rightarrow> pyvalue py" where
  "raising_handlemessage e self msg w = (Inl e, w)"

definition ex_raising_class :: "pyexn \<Rightarrow> actor_class" where
  "ex_raising_class e = Actor_class\<lparr>handlemessage_ov := Some (raising_handlemessage e)\<rparr>"

section \<open>Properties\<close>

subsection \<open>Reading the Activity\<close>

text \<open>
  C10. The \<^verbatim>\<open>activity\<close> property and \<^verbatim>\<open>getactivity(doraise=True)\<close> raise
  \<^verbatim>\<open>ActivityNotFoundError\<close> exactly when the weak reference to the Activity yields
  \<^verbatim>\<open>None\<close>, and otherwise return that Activity; \<^verbatim>\<open>getactivity(doraise=False)\<close> never
  raises and returns \<^verbatim>\<open>None\<close> in that same case. None of them changes the world.
\<close>

theorem getactivity_raises_iff_gone:
  "Actor_activity self w =
     (case weakref_call (activity_attr self) w of
        None \<Rightarrow> (Inl ActivityNotFoundError, w)
      | Some a \<Rightarrow> (Inr a, w))
   \<and> Actor_getactivity self True w =
     (case weakref_call (activity_attr self) w of
        None \<Rightarrow> (Inl ActivityNotFoundError, w)
      | Some a \<Rightarrow> (Inr (Some a), w))
   \<and> Actor_getactivity self False w = (Inr (weakref_call (activity_attr self) w), w)"
  by (simp add: Actor_activity_def Actor_getactivity_def split: option.split)

theorem getactivity_raises_iff_gone_witness:
  "Actor_activity ex_orphan ex_world = (Inl ActivityNotFoundError, ex_world)
   \<and> Actor_getactivity ex_orphan True ex_world = (Inl ActivityNotFoundError, ex_world)
   \<and> Actor_getactivity ex_orphan False ex_world = (Inr None, ex_world)
   \<and> Actor_activity ex_actor ex_world = (Inr 1, ex_world)
   \<and> Actor_getactivity ex_actor True ex_world = (Inr (Some 1), ex_world)
   \<and> Actor_getactivity ex_actor False ex_world = (Inr (Some 1), ex_world)"
  using getactivity_raises_iff_gone [of ex_orphan ex_world]
        getactivity_raises_iff_gone [of ex_actor ex_world]
  by (simp add: ex_orphan_def ex_actor_def ex_world_def)

text \<open>
  C2. \<^verbatim>\<open>is_expired()\<close>, with \<^verbatim>\<open>getactivity\<close> as \<^verbatim>\<open>Actor\<close> defines it, returns \<^verbatim>\<open>True\<close>
  whenever the weak reference to the owning Activity yields \<^verbatim>\<open>None\<close>; when the Activity
  still exists it returns exactly the value of that Activity's \<^verbatim>\<open>is_expired()\<close>.
\<close>

theorem is_expired_follows_activity:
  "getactivity_ov cls = None \<Longrightarrow>
   Actor_is_expired cls self w =
     (case weakref_call (activity_attr self) w of
        None \<Rightarrow> (Inr True, w)
      | Some a \<Rightarrow> (Inr (Activity_is_expired a w), w))"
  by (simp add: Actor_is_expired_def call_getactivity_def Actor_getactivity_def
           split: option.split)

theorem is_expired_follows_activity_witness:
  "getactivity_ov Actor_class = None
   \<and> Actor_is_expired Actor_class ex_orphan ex_world = (Inr True, ex_world)
   \<and> Actor_is_expired Actor_class ex_actor ex_world = (Inr False, ex_world)
   \<and> Actor_is_expired Actor_class ex_expired ex_world = (Inr True, ex_world)"
proof -
  have h: "getactivity_ov Actor_class = None" by (simp add: Actor_class_def)
  show ?thesis
    using h is_expired_follows_activity [OF h, of ex_orphan ex_world]
          is_expired_follows_activity [OF h, of ex_actor ex_world]
          is_expired_follows_activity [OF h, of ex_expired ex_world]
    by (simp add: ex_orphan_def ex_actor_def ex_expired_def ex_world_def
                  Activity_is_expired_def)
qed

subsection \<open>Existence\<close>

text \<open>
  C9. \<^verbatim>\<open>bool(actor)\<close> equals \<^verbatim>\<open>actor.exists()\<close>, and the default \<^verbatim>\<open>exists()\<close> equals
  \<^verbatim>\<open>node.exists()\<close> when the actor has a non-None \<^verbatim>\<open>node\<close> attribute and \<^verbatim>\<open>True\<close>
  otherwise; so a node-less base Actor is always truthy.
\<close>

theorem bool_is_exists:
  "Actor_bool cls self w = call_exists cls self w
   \<and> Actor_exists self w =
       (case getattr_node self of
          Some n \<Rightarrow> (Inr (Node_exists n w), w)
        | None \<Rightarrow> (Inr True, w))
   \<and> (getattr_node self = None \<longrightarrow> Actor_bool Actor_class self w = (Inr True, w))"
  by (simp add: Actor_bool_def Actor_exists_def call_exists_def Actor_class_def)

theorem bool_is_exists_witness:
  "getattr_node ex_bare = None
   \<and> Actor_bool Actor_class ex_bare ex_world = (Inr True, ex_world)
   \<and> Actor_exists ex_actor ex_world = (Inr True, ex_world)
   \<and> Actor_exists ex_actor (Node_delete 7 ex_world) = (Inr False, Node_delete 7 ex_world)"
  using bool_is_exists [of Actor_class ex_bare ex_world]
        bool_is_exists [of Actor_class ex_actor ex_world]
        bool_is_exists [of Actor_class ex_actor "Node_delete 7 ex_world"]
  by (simp add: getattr_node_def ex_bare_def ex_actor_def ex_world_def Node_exists_def
                Node_delete_def call_exists_def Actor_class_def Actor_exists_def)

subsection \<open>Message handling\<close>

text \<open>
  C8. The default \<^verbatim>\<open>handlemessage(msg)\<close> returns \<^verbatim>\<open>None\<close> after calling \<^verbatim>\<open>node.delete()\<close>
  exactly when \<open>msg\<close> is a \<^verbatim>\<open>DieMessage\<close> and the actor has a non-None \<^verbatim>\<open>node\<close>
  attribute; for a \<^verbatim>\<open>DieMessage\<close> with no node it returns \<^verbatim>\<open>None\<close> without any engine
  call; for every other message it returns \<^verbatim>\<open>UNHANDLED\<close> and leaves all state unchanged.
\<close>

theorem handlemessage_default:
  "(isinstance_DieMessage msg \<and> getattr_node self = Some n \<longrightarrow>
      Actor_handlemessage self msg w = (Inr PyNone, Node_delete n w)
      \<and> calls (Node_delete n w) = calls w @ [CallNodeDelete n])
   \<and> (isinstance_DieMessage msg \<and> getattr_node self = None \<longrightarrow>
      Actor_handlemessage self msg w = (Inr PyNone, w))
   \<and> (\<not> isinstance_DieMessage msg \<longrightarrow>
      Actor_handlemessage self msg w = (Inr UNHANDLED, w))"
  by (simp add: Actor_handlemessage_def Node_delete_def)

theorem handlemessage_default_witness:
  "isinstance_DieMessage DieMessage \<and> getattr_node ex_actor = Some 7
   \<and> Actor_handlemessage ex_actor DieMessage ex_world = (Inr PyNone, Node_delete 7 ex_world)
   \<and> calls (Node_delete 7 ex_world) = [CallNodeDelete 7]
   \<and> getattr_node ex_bare = None
   \<and> Actor_handlemessage ex_bare DieMessage ex_world = (Inr PyNone, ex_world)
   \<and> \<not> isinstance_DieMessage (OtherMessage ''hit'')
   \<and> Actor_handlemessage ex_actor (OtherMessage ''hit'') ex_world = (Inr UNHANDLED, ex_world)"
  using handlemessage_default [of DieMessage ex_actor 7 ex_world]
        handlemessage_default [of DieMessage ex_bare 0 ex_world]
        handlemessage_default [of "OtherMessage ''hit''" ex_actor 0 ex_world]
  by (simp add: getattr_node_def ex_bare_def ex_actor_def ex_world_def)

subsection \<open>Retaining\<close>

text \<open>
  C5. \<^verbatim>\<open>autoretain()\<close> raises \<^verbatim>\<open>ActivityNotFoundError\<close> if and only if the owning
  Activity no longer exists (the weak reference yields \<^verbatim>\<open>None\<close>); otherwise it adds the
  actor to that Activity's retain list through \<^verbatim>\<open>retain_actor\<close> and returns the very
  same actor it was called on.
\<close>

theorem autoretain_retains_or_raises:
  "(fst (Actor_autoretain self w) = Inl ActivityNotFoundError
      \<longleftrightarrow> weakref_call (activity_attr self) w = None)
   \<and> ((\<exists>e. fst (Actor_autoretain self w) = Inl e)
      \<longleftrightarrow> weakref_call (activity_attr self) w = None)
   \<and> (weakref_call (activity_attr self) w = None \<longrightarrow> snd (Actor_autoretain self w) = w)
   \<and> (weakref_call (activity_attr self) w = Some a \<and> activities w a = Some act \<longrightarrow>
        Actor_autoretain self w = (Inr self, Activity_retain_actor a (obj_id self) w)
        \<and> activities (snd (Actor_autoretain self w)) a
            = Some (act\<lparr>actor_refs := actor_refs act @ [obj_id self]\<rparr>)
        \<and> calls (snd (Actor_autoretain self w)) = calls w @ [CallRetainActor a (obj_id self)])"
  by (auto simp add: Actor_autoretain_def Activity_retain_actor_def split: option.split)

theorem autoretain_retains_or_raises_witness:
  "weakref_call (activity_attr ex_orphan) ex_world = None
   \<and> Actor_autoretain ex_orphan ex_world = (Inl ActivityNotFoundError, ex_world)
   \<and> weakref_call (activity_attr ex_actor) ex_world = Some 1
   \<and> activities ex_world 1 = Some \<lparr>expired = False, actor_weak_refs = [], actor_refs = []\<rparr>
   \<and> fst (Actor_autoretain ex_actor ex_world) = Inr ex_actor
   \<and> activities (snd (Actor_autoretain ex_actor ex_world)) 1
       = Some \<lparr>expired = False, actor_weak_refs = [], actor_refs = [3]\<rparr>
   \<and> calls (snd (Actor_autoretain ex_actor ex_world)) = [CallRetainActor 1 3]"
  using autoretain_retains_or_raises [of ex_orphan ex_world 0 undefined]
        autoretain_retains_or_raises
          [of ex_actor ex_world 1 "\<lparr>expired = False, actor_weak_refs = [], actor_refs = []\<rparr>"]
  by (simp add: ex_orphan_def ex_actor_def ex_world_def Actor_autoretain_def
                Activity_retain_actor_def)

subsection \<open>Construction\<close>

text \<open>
  C6. Inside an active Activity context, \<^verbatim>\<open>__init__\<close> obtains the current Activity from
  the engine, registers the new actor in that Activity's weak-actor registry through
  \<^verbatim>\<open>add_actor_weak_ref\<close> exactly once (it is the only call the construction adds to the
  trace), and stores the given node, or \<^verbatim>\<open>None\<close> when no node is provided, as the
  \<^verbatim>\<open>node\<close> attribute.
\<close>

theorem init_registers_actor:
  "current_activity w = Some a \<and> activities w a = Some act \<longrightarrow>
     ba_getactivity w = Inr a
     \<and> Actor_init self_id node w =
         (Inr \<lparr>obj_id = self_id, node_attr = Some node, activity_attr = weakref_ref a\<rparr>,
          Activity_add_actor_weak_ref a self_id w)
     \<and> calls (snd (Actor_init self_id node w)) = calls w @ [CallAddActorWeakRef a self_id]
     \<and> activities (snd (Actor_init self_id node w)) a =
         Some (act\<lparr>actor_weak_refs := actor_weak_refs act @ [self_id]\<rparr>)
     \<and> (\<forall>self. fst (Actor_init self_id node w) = Inr self \<longrightarrow> getattr_node self = node)"
  by (auto simp add: Actor_init_def ba_getactivity_def Activity_add_actor_weak_ref_def
        getattr_node_def Let_def)

theorem init_registers_actor_witness:
  "current_activity ex_world = Some 1
   \<and> activities ex_world 1 = Some \<lparr>expired = False, actor_weak_refs = [], actor_refs = []\<rparr>
   \<and> fst (Actor_init 8 (Some 7) ex_world) =
        Inr \<lparr>obj_id = 8, node_attr = Some (Some 7), activity_attr = Weakref 1\<rparr>
   \<and> fst (Actor_init 9 None ex_world) =
        Inr \<lparr>obj_id = 9, node_attr = Some None, activity_attr = Weakref 1\<rparr>
   \<and> calls (snd (Actor_init 8 (Some 7) ex_world)) = [CallAddActorWeakRef 1 8]
   \<and> activities (snd (Actor_init 8 (Some 7) ex_world)) 1 =
        Some \<lparr>expired = False, actor_weak_refs = [8], actor_refs = []\<rparr>"
  using init_registers_actor
          [of ex_world 1 "\<lparr>expired = False, actor_weak_refs = [], actor_refs = []\<rparr>" 8 "Some 7"]
        init_registers_actor
          [of ex_world 1 "\<lparr>expired = False, actor_weak_refs = [], actor_refs = []\<rparr>" 9 None]
  by (simp add: ex_world_def weakref_ref_def Actor_init_def ba_getactivity_def
        Activity_add_actor_weak_ref_def)

subsection \<open>Destruction\<close>

lemma Actor_is_expired_handlemessage_ov:
  "Actor_is_expired (cls\<lparr>handlemessage_ov := h\<rparr>) = Actor_is_expired cls"
  by (simp add: Actor_is_expired_def call_getactivity_def fun_eq_iff)

lemma call_is_expired_handlemessage_ov:
  "call_is_expired (cls\<lparr>handlemessage_ov := h\<rparr>) = call_is_expired cls"
  by (simp add: call_is_expired_def Actor_is_expired_handlemessage_ov split: option.split)

text \<open>
  C3. For an Actor that is expired (\<^verbatim>\<open>is_expired()\<close> returns \<^verbatim>\<open>True\<close>) when its \<^verbatim>\<open>__del__\<close>
  finalizer runs, the finalizer does nothing more: the world is the one \<^verbatim>\<open>is_expired()\<close>
  left, whatever \<^verbatim>\<open>handlemessage\<close> the class has, so no \<^verbatim>\<open>DieMessage\<close> is dispatched
  and \<^verbatim>\<open>node.delete()\<close> is never reached. With the \<^verbatim>\<open>is_expired\<close> and \<^verbatim>\<open>getactivity\<close>
  of \<^verbatim>\<open>Actor\<close> the world is unchanged altogether.
\<close>

theorem del_expired_is_inert:
  "call_is_expired cls self w = (Inr True, w1) \<longrightarrow>
     Actor_del cls self w = (Inr (), w1)
     \<and> Actor_del (cls\<lparr>handlemessage_ov := h\<rparr>) self w = (Inr (), w1)
     \<and> (is_expired_ov cls = None \<and> getactivity_ov cls = None \<longrightarrow> w1 = w)"
  by (auto simp add: Actor_del_def call_is_expired_handlemessage_ov call_is_expired_def
        Actor_is_expired_def call_getactivity_def Actor_getactivity_def
        split: option.splits)

theorem del_expired_is_inert_witness:
  "call_is_expired Actor_class ex_orphan ex_world = (Inr True, ex_world)
   \<and> call_is_expired Actor_class ex_expired ex_world = (Inr True, ex_world)
   \<and> Actor_del Actor_class ex_orphan ex_world = (Inr (), ex_world)
   \<and> Actor_del Actor_class ex_expired ex_world = (Inr (), ex_world)
   \<and> Actor_del (ex_raising_class (OtherException ''boom'')) ex_expired ex_world
       = (Inr (), ex_world)"
proof -
  have o: "call_is_expired Actor_class ex_orphan ex_world = (Inr True, ex_world)"
    by (simp add: call_is_expired_def Actor_class_def Actor_is_expired_def
          call_getactivity_def Actor_getactivity_def ex_orphan_def ex_world_def)
  have e: "call_is_expired Actor_class ex_expired ex_world = (Inr True, ex_world)"
    by (simp add: call_is_expired_def Actor_class_def Actor_is_expired_def
          call_getactivity_def Actor_getactivity_def ex_expired_def ex_world_def
          Activity_is_expired_def)
  show ?thesis
    using o e
      del_expired_is_inert [of Actor_class ex_orphan ex_world ex_world]
      del_expired_is_inert [of Actor_class ex_expired ex_world ex_world
                               "Some (raising_handlemessage (OtherException ''boom''))"]
    by (simp add: ex_raising_class_def)
qed

text \<open>
  C1, as amended. For an Actor that is not expired when its \<^verbatim>\<open>__del__\<close> finalizer runs,
  a \<^verbatim>\<open>DieMessage\<close> is dispatched to the actor through its own \<^verbatim>\<open>handlemessage\<close> method:
  what the finalizer leaves behind is what that one call leaves behind, followed by the
  \<^verbatim>\<open>except\<close> clause when the call raises.
\<close>

theorem del_dispatches_die_message:
  "call_is_expired cls self w = (Inr False, w1) \<longrightarrow>
     Actor_del cls self w =
       (case call_handlemessage cls self DieMessage w1 of
          (Inr v, w2) \<Rightarrow> (Inr (), w2)
        | (Inl e, w2) \<Rightarrow>
            if isinstance_Exception e
            then (Inr (), print_exception e ''exception in ba.Actor.__del__() for''
                            (obj_id self) w2)
            else (Inl e, w2))"
  by (auto simp add: Actor_del_def split: prod.splits sum.splits)

theorem del_dispatches_die_message_witness:
  "call_is_expired Actor_class ex_actor ex_world = (Inr False, ex_world)
   \<and> call_handlemessage Actor_class ex_actor DieMessage ex_world
       = (Inr PyNone, Node_delete 7 ex_world)
   \<and> Actor_del Actor_class ex_actor ex_world = (Inr (), Node_delete 7 ex_world)
   \<and> calls (snd (Actor_del Actor_class ex_actor ex_world)) = [CallNodeDelete 7]"
proof -
  have a: "call_is_expired Actor_class ex_actor ex_world = (Inr False, ex_world)"
    by (simp add: call_is_expired_def Actor_class_def Actor_is_expired_def
          call_getactivity_def Actor_getactivity_def ex_actor_def ex_world_def
          Activity_is_expired_def)
  have h: "call_handlemessage Actor_class ex_actor DieMessage ex_world
             = (Inr PyNone, Node_delete 7 ex_world)"
    by (simp add: call_handlemessage_def Actor_class_def Actor_handlemessage_def
          getattr_node_def ex_actor_def)
  have c: "calls (Node_delete 7 ex_world) = [CallNodeDelete 7]"
    by (simp add: Node_delete_def ex_world_def)
  show ?thesis
    using a h c del_dispatches_die_message [of Actor_class ex_actor ex_world ex_world]
    by simp
qed

text \<open>
  C1, as stated for every Actor, fails on an expired one. The Activity of \<open>ex_orphan\<close>
  is gone, so its finalizer sends nothing: node 7 is still there and no call was made,
  where handling a \<^verbatim>\<open>DieMessage\<close> would have deleted the node.
\<close>

theorem del_dispatches_die_message_counterexample:
  "fst (call_is_expired Actor_class ex_orphan ex_world) = Inr True
   \<and> fst (Actor_del Actor_class ex_orphan ex_world) = Inr ()
   \<and> calls (snd (Actor_del Actor_class ex_orphan ex_world)) = []
   \<and> 7 \<in> nodes (snd (Actor_del Actor_class ex_orphan ex_world))
   \<and> calls (snd (call_handlemessage Actor_class ex_orphan DieMessage ex_world))
       = [CallNodeDelete 7]
   \<and> 7 \<notin> nodes (snd (call_handlemessage Actor_class ex_orphan DieMessage ex_world))"
  by (simp add: Actor_del_def call_is_expired_def Actor_class_def Actor_is_expired_def
        call_getactivity_def Actor_getactivity_def call_handlemessage_def
        Actor_handlemessage_def getattr_node_def Node_delete_def ex_orphan_def ex_world_def)

text \<open>
  C4, as amended. Every exception that is an instance of \<^verbatim>\<open>Exception\<close> raised during
  the die-message dispatch inside \<^verbatim>\<open>__del__\<close> is caught, reported through
  \<^verbatim>\<open>print_exception\<close>, and not propagated out of \<^verbatim>\<open>__del__\<close>; nothing else is done
  to recover.
\<close>

theorem del_reports_exceptions:
  "call_is_expired cls self w = (Inr False, w1)
   \<and> call_handlemessage cls self DieMessage w1 = (Inl e, w2)
   \<and> isinstance_Exception e \<longrightarrow>
     Actor_del cls self w =
       (Inr (), w2\<lparr>calls := calls w2 @
          [CallPrintException e ''exception in ba.Actor.__del__() for'' (obj_id self)]\<rparr>)"
  by (auto simp add: Actor_del_def print_exception_def)

theorem del_reports_exceptions_witness:
  "call_is_expired (ex_raising_class (OtherException ''boom'')) ex_actor ex_world
     = (Inr False, ex_world)
   \<and> call_handlemessage (ex_raising_class (OtherException ''boom'')) ex_actor DieMessage
       ex_world = (Inl (OtherException ''boom''), ex_world)
   \<and> isinstance_Exception (OtherException ''boom'')
   \<and> fst (Actor_del (ex_raising_class (OtherException ''boom'')) ex_actor ex_world) = Inr ()
   \<and> calls (snd (Actor_del (ex_raising_class (OtherException ''boom'')) ex_actor ex_world))
       = [CallPrintException (OtherException ''boom'')
            ''exception in ba.Actor.__del__() for'' 3]"
proof -
  have a: "call_is_expired (ex_raising_class (OtherException ''boom'')) ex_actor ex_world
             = (Inr False, ex_world)"
    by (simp add: call_is_expired_def ex_raising_class_def Actor_class_def
          Actor_is_expired_def call_getactivity_def Actor_getactivity_def ex_actor_def
          ex_world_def Activity_is_expired_def)
  have h: "call_handlemessage (ex_raising_class (OtherException ''boom'')) ex_actor
             DieMessage ex_world = (Inl (OtherException ''boom''), ex_world)"
    by (simp add: call_handlemessage_def ex_raising_class_def raising_handlemessage_def)
  show ?thesis
    using a h
      del_reports_exceptions [of "ex_raising_class (OtherException ''boom'')" ex_actor
        ex_world ex_world "OtherException ''boom''" ex_world]
    by (simp add: ex_actor_def ex_world_def)
qed

text \<open>
  C4, as stated for every exception, fails for one outside the \<^verbatim>\<open>Exception\<close>
  hierarchy: a \<^verbatim>\<open>KeyboardInterrupt\<close> raised by \<^verbatim>\<open>handlemessage\<close> passes the
  \<^verbatim>\<open>except Exception:\<close> clause, leaves \<^verbatim>\<open>__del__\<close> and is not reported.
\<close>

theorem del_reports_exceptions_counterexample:
  "fst (call_is_expired (ex_raising_class KeyboardInterrupt) ex_actor ex_world) = Inr False
   \<and> fst (call_handlemessage (ex_raising_class KeyboardInterrupt) ex_actor DieMessage
            ex_world) = Inl KeyboardInterrupt
   \<and> fst (Actor_del (ex_raising_class KeyboardInterrupt) ex_actor ex_world)
       = Inl KeyboardInterrupt
   \<and> calls (snd (Actor_del (ex_raising_class KeyboardInterrupt) ex_actor ex_world)) = []"
  by (simp add: Actor_del_def call_is_expired_def ex_raising_class_def Actor_class_def
        Actor_is_expired_def call_getactivity_def Actor_getactivity_def
        call_handlemessage_def raising_handlemessage_def Activity_is_expired_def
        ex_actor_def ex_world_def)

end
